theory Spec2Isabelle
  imports Main "HOL-Library.Word" "HOL-Library.AList" "HOL-Library.Sublist"
    "HOL-Library.Char_ord" "HOL-Library.List_Lexorder"
begin

section \<open>The secure-session controller of go-secret\<close>

text \<open>
  A shallow embedding of \<^verbatim>\<open>internal/ui/model.go\<close> (the second, current version of the
  file) and of \<^verbatim>\<open>internal/audit/audit.go\<close>. Embedded are \<^verbatim>\<open>Model\<close>, the vault
  functions, \<^verbatim>\<open>buildFolderTree\<close>, \<^verbatim>\<open>updateDisplayItems\<close>, \<^verbatim>\<open>Update\<close> with every message
  branch and the global key rules, the key handlers of the list, detail, generate,
  filter, reveal and locked views, and \<^verbatim>\<open>Logger.Log\<close> with the rotation it triggers. The
  key handlers of the remaining views (project prompt, create, add version, delete, the
  settings screens, audit log, project switch) are not embedded: a key that goes to one of
  them has the outcome \<open>Elsewhere\<close>. None of them assigns \<^verbatim>\<open>revealedValue\<close>,
  \<^verbatim>\<open>clipboardClearAt\<close>, \<^verbatim>\<open>clipboardActive\<close> or \<^verbatim>\<open>sessionLocked\<close>.

  Conventions of the embedding.
  \<^item> A \<^verbatim>\<open>[]byte\<close> is a reference into a store of buffers: Go slices alias their backing
    array, and zeroing a buffer must stay observable after the controller has dropped its
    reference. \<^verbatim>\<open>nil\<close> is \<open>None\<close>.
  \<^item> \<^verbatim>\<open>time.Time\<close> is an \<open>int\<close>, the reading of the monotonic clock in nanoseconds;
    \<^verbatim>\<open>time.Duration\<close> is a signed 64-bit count of nanoseconds, with the wrap-around of Go's
    multiplication and the saturation of \<^verbatim>\<open>Time.Sub\<close> written out.
  \<^item> Every call of \<^verbatim>\<open>time.Now()\<close> inside one call of \<^verbatim>\<open>Update\<close> reads the same
    instant, the field \<open>now\<close> of the environment.
  \<^item> Calls on collaborators behind a pointer or a package (the clipboard, the audit logger)
    are recorded, in program order, as a list of effects; the asynchronous tasks that
    \<^verbatim>\<open>Update\<close> returns are a list of commands (\<^verbatim>\<open>nil\<close> is the empty list).
  \<^item> The widgets of the bubbles library (\<^verbatim>\<open>textinput.Model\<close>, \<^verbatim>\<open>textarea.Model\<close>) are
    values of the type variables \<open>'w\<close> and \<open>'a\<close>; their operations are parameters.
  \<^item> A Go panic (index out of range, nil dereference) is the outcome \<open>Panic\<close>.
\<close>

subsection \<open>Bytes, buffers and the store\<close>

type_synonym byte = "8 word"

record heap =
  cells :: "nat \<Rightarrow> byte list"
  nxt :: nat

text \<open>\<^verbatim>\<open>make([]byte, n)\<close> followed by \<^verbatim>\<open>copy\<close>: a fresh buffer holding the given bytes.\<close>

definition alloc :: "byte list \<Rightarrow> heap \<Rightarrow> nat \<times> heap" where
  "alloc bs h = (nxt h, h\<lparr>cells := (cells h)(nxt h := bs), nxt := Suc (nxt h)\<rparr>)"

text \<open>\<^verbatim>\<open>for i := range b { b[i] = 0 }\<close> on the bytes of one buffer.\<close>

primrec zero_bytes :: "byte list \<Rightarrow> byte list" where
  "zero_bytes [] = []"
| "zero_bytes (b # bs) = 0 # zero_bytes bs"

definition zero_buffer :: "nat \<Rightarrow> heap \<Rightarrow> heap" where
  "zero_buffer a h = h\<lparr>cells := (cells h)(a := zero_bytes (cells h a))\<rparr>"

text \<open>The bytes a slice value denotes; ranging over \<^verbatim>\<open>nil\<close> visits nothing.\<close>

definition slice_bytes :: "nat option \<Rightarrow> heap \<Rightarrow> byte list" where
  "slice_bytes s h = (case s of None \<Rightarrow> [] | Some a \<Rightarrow> cells h a)"

definition zero_slice :: "nat option \<Rightarrow> heap \<Rightarrow> heap" where
  "zero_slice s h = (case s of None \<Rightarrow> h | Some a \<Rightarrow> zero_buffer a h)"

text \<open>\<^verbatim>\<open>string(b)\<close>: the bytes of the buffer as a string.\<close>

definition string_of_bytes :: "byte list \<Rightarrow> string" where
  "string_of_bytes bs = map (\<lambda>b. char_of (unat b)) bs"

subsection \<open>Data of the controller\<close>

datatype View =
    ViewProjectPrompt | ViewList | ViewDetail | ViewCreate | ViewAddVersion | ViewDelete
  | ViewGenerate | ViewConfig | ViewConfigMenu | ViewConfigBasic | ViewConfigTemplates
  | ViewConfigTemplateEdit | ViewConfigRecentProjects | ViewConfigSecurity | ViewAuditLog
  | ViewFilter | ViewReveal | ViewProjectSwitch | ViewLocked

record gcp_Secret =
  secret_Name :: string
  secret_FullName :: string
  secret_CreateTime :: string
  secret_Labels :: "(string \<times> string) list"
  secret_Replication :: string

record gcp_SecretVersion =
  version_Name :: string
  version_State :: string
  version_CreateTime :: string

text \<open>
  \<^verbatim>\<open>FolderItem\<close>. The child map is an association list in insertion order with one entry
  per key; the pointer to the originating secret is the secret itself, which the
  controller never mutates.
\<close>

datatype FolderItem = FolderItem
  (Name: string) (FullPath: string) (IsFolder: bool) (Secret: "gcp_Secret option")
  (Children: "(string \<times> FolderItem) list") (Depth: int)

record Config =
  ProjectID :: string
  FolderSeparator :: string
  Templates :: "(string \<times> string) list"
  RecentProjects :: "string list"
  SecretLocations :: "string list"
  Clipboard_AutoClear :: bool
  Clipboard_TimeoutSeconds :: int
  Audit_Enabled :: bool
  Audit_FilePath :: string
  Audit_MaxSizeMB :: int
  Audit_MaxAgeDays :: int
  Session_InactivityTimeout :: int
  Session_LockOnTimeout :: bool

text \<open>
  \<^verbatim>\<open>Model\<close>, field by field. The fields \<^verbatim>\<open>ctx\<close>, \<^verbatim>\<open>styles\<close> and \<^verbatim>\<open>keys\<close> are set once
  by \<^verbatim>\<open>NewModel\<close> and never assigned again; they are left out. \<open>client\<close> holds the user
  e-mail of the client object, \<open>auditLogger\<close> tells whether the logger pointer is non-nil,
  \<open>viewport\<close> holds the arguments of \<^verbatim>\<open>viewport.New\<close>.
\<close>

record ('w, 'a) Model =
  config :: Config
  client :: "string option"
  view :: View
  previousView :: View
  width :: int
  height :: int
  secrets :: "gcp_Secret list"
  folderTree :: FolderItem
  currentPath :: "string list"
  displayItems :: "FolderItem list"
  cursor :: int
  listOffset :: int
  filterText :: string
  filterInput :: 'w
  selectedSecret :: "gcp_Secret option"
  versions :: "gcp_SecretVersion list"
  versionCursor :: int
  revealedValue :: "nat option"
  revealVersion :: string
  createInputs :: "'w list"
  createFocus :: int
  createLocationIdx :: int
  createAddingLoc :: bool
  createLocInput :: 'w
  createValueArea :: 'a
  createEditorMode :: bool
  versionInput :: 'w
  templateCursor :: int
  generatedCode :: string
  configInputs :: "'w list"
  configFocus :: int
  configMenuCursor :: int
  configMenuItems :: "string list"
  templateListCursor :: int
  editingTemplateIdx :: int
  templateTitleInput :: 'w
  templateCodeArea :: 'a
  templateFocus :: int
  isNewTemplate :: bool
  recentProjectsCursor :: int
  securityCursor :: int
  auditLogLines :: "string list"
  auditLogOffset :: int
  projectSwitchCursor :: int
  projectSwitchInput :: 'w
  projectSwitchPrevView :: View
  deleteConfirm :: bool
  statusMsg :: string
  statusErr :: bool
  viewport :: "int \<times> int"
  loading :: bool
  loadingMsg :: string
  clipboardClearAt :: int
  clipboardActive :: bool
  auditLogger :: bool
  lastActivity :: int
  sessionLocked :: bool
  lockedPrevView :: View

subsection \<open>The vault: \<^verbatim>\<open>setRevealedValue\<close>, \<^verbatim>\<open>clearRevealedValue\<close>, \<^verbatim>\<open>getRevealedValueString\<close>\<close>

definition clearRevealedValue ::
  "('w, 'a) Model \<Rightarrow> heap \<Rightarrow> ('w, 'a) Model \<times> heap" where
  "clearRevealedValue m h =
     (case revealedValue m of
        None \<Rightarrow> (m, h)
      | Some a \<Rightarrow> (m\<lparr>revealedValue := None\<rparr>, zero_buffer a h))"

definition setRevealedValue ::
  "nat option \<Rightarrow> ('w, 'a) Model \<Rightarrow> heap \<Rightarrow> ('w, 'a) Model \<times> heap" where
  "setRevealedValue v m h =
     (let (m1, h1) = clearRevealedValue m h;
          (a, h2) = alloc (slice_bytes v h1) h1
      in (m1\<lparr>revealedValue := Some a\<rparr>, h2))"

definition getRevealedValueString :: "('w, 'a) Model \<Rightarrow> heap \<Rightarrow> string" where
  "getRevealedValueString m h =
     (case revealedValue m of
        None \<Rightarrow> []
      | Some a \<Rightarrow> string_of_bytes (cells h a))"

subsection \<open>Strings: \<^verbatim>\<open>strings.Split\<close>, \<^verbatim>\<open>strings.Join\<close>, \<^verbatim>\<open>strings.Contains\<close>\<close>

text \<open>
  \<^verbatim>\<open>strings.Split(s, sep)\<close> cuts \<open>s\<close> at every occurrence of \<open>sep\<close>, found from the left
  and not overlapping; with an empty separator it explodes \<open>s\<close> into its characters (Go:
  into its UTF-8 sequences; a \<open>char\<close> stands for one of them in that branch).
\<close>

fun genSplit :: "string \<Rightarrow> string \<Rightarrow> string list" where
  "genSplit sep [] = [[]]"
| "genSplit sep (c # cs) =
     (if prefix sep (c # cs) then [] # genSplit sep (drop (length sep - 1) cs)
      else (case genSplit sep cs of [] \<Rightarrow> [[c]] | p # ps \<Rightarrow> (c # p) # ps))"

definition Split :: "string \<Rightarrow> string \<Rightarrow> string list" where
  "Split s sep = (if sep = [] then map (\<lambda>c. [c]) s else genSplit sep s)"

fun Join :: "string list \<Rightarrow> string \<Rightarrow> string" where
  "Join [] sep = []"
| "Join [x] sep = x"
| "Join (x # y # ys) sep = x @ sep @ Join (y # ys) sep"

fun Contains :: "string \<Rightarrow> string \<Rightarrow> bool" where
  "Contains [] sub = (sub = [])"
| "Contains (c # cs) sub = (prefix sub (c # cs) \<or> Contains cs sub)"

subsection \<open>The namespace tree: \<^verbatim>\<open>buildFolderTree\<close>\<close>

definition set_Children :: "(string \<times> FolderItem) list \<Rightarrow> FolderItem \<Rightarrow> FolderItem" where
  "set_Children cs n = FolderItem (Name n) (FullPath n) (IsFolder n) (Secret n) cs (Depth n)"

text \<open>
  The inner loop \<^verbatim>\<open>for j, part := range parts\<close> of \<^verbatim>\<open>buildFolderTree\<close>, from index \<open>j\<close>
  on: \<open>rest\<close> is what remains of \<open>parts\<close>, \<open>current\<close> the node the loop stands at. The
  result is \<open>current\<close> with the insertions below it done.
\<close>

fun insert_parts ::
  "string \<Rightarrow> gcp_Secret \<Rightarrow> string list \<Rightarrow> nat \<Rightarrow> string list \<Rightarrow> FolderItem \<Rightarrow> FolderItem" where
  "insert_parts sep secret parts j [] current = current"
| "insert_parts sep secret parts j (part # rest) current =
     (if part = [] then insert_parts sep secret parts (Suc j) rest current
      else
        let child =
          (case map_of (Children current) part of
             Some c \<Rightarrow> c
           | None \<Rightarrow>
               (let isFolder = (int j < int (length parts) - 1)
                in FolderItem part (Join (take (Suc j) parts) sep) isFolder
                     (if \<not> isFolder then Some secret else None) [] (int j)))
        in set_Children
             (AList.update part (insert_parts sep secret parts (Suc j) rest child)
                (Children current))
             current)"

definition insert_secret :: "string \<Rightarrow> gcp_Secret \<Rightarrow> FolderItem \<Rightarrow> FolderItem" where
  "insert_secret sep secret root =
     (let parts = Split (secret_Name secret) sep
      in insert_parts sep secret parts 0 parts root)"

text \<open>The outer loop \<^verbatim>\<open>for i := range m.secrets\<close>.\<close>

fun insert_secrets :: "string \<Rightarrow> gcp_Secret list \<Rightarrow> FolderItem \<Rightarrow> FolderItem" where
  "insert_secrets sep [] root = root"
| "insert_secrets sep (secret # others) root =
     insert_secrets sep others (insert_secret sep secret root)"

definition empty_root :: FolderItem where
  "empty_root = FolderItem [] [] False None [] 0"

definition buildFolderTree :: "('w, 'a) Model \<Rightarrow> ('w, 'a) Model" where
  "buildFolderTree m =
     m\<lparr>folderTree := insert_secrets (FolderSeparator (config m)) (secrets m) empty_root\<rparr>"

subsection \<open>The displayed list: \<^verbatim>\<open>updateDisplayItems\<close>\<close>

text \<open>The walk along \<^verbatim>\<open>m.currentPath\<close>; \<open>None\<close> when a segment is absent.\<close>

fun walk :: "FolderItem \<Rightarrow> string list \<Rightarrow> FolderItem option" where
  "walk current [] = Some current"
| "walk current (p # ps) =
     (case map_of (Children current) p of
        Some child \<Rightarrow> walk child ps
      | None \<Rightarrow> None)"

text \<open>
  The comparison given to \<^verbatim>\<open>sort.Slice\<close>: folders first, then by name (byte-wise,
  as Go compares strings). Siblings have different names, so the order is total on them
  and the sorted slice does not depend on the sorting algorithm; it is modelled by
  insertion.
\<close>

definition item_less :: "FolderItem \<Rightarrow> FolderItem \<Rightarrow> bool" where
  "item_less x y = (if IsFolder x \<noteq> IsFolder y then IsFolder x else Name x < Name y)"

fun insert_item :: "FolderItem \<Rightarrow> FolderItem list \<Rightarrow> FolderItem list" where
  "insert_item x [] = [x]"
| "insert_item x (y # ys) = (if item_less x y then x # y # ys else y # insert_item x ys)"

definition sort_items :: "FolderItem list \<Rightarrow> FolderItem list" where
  "sort_items xs = foldr insert_item xs []"

text \<open>
  \<^verbatim>\<open>strings.ToLower\<close> is the parameter \<open>lower\<close> (it lower-cases every Unicode letter).
\<close>

definition matches_filter :: "(string \<Rightarrow> string) \<Rightarrow> string \<Rightarrow> FolderItem \<Rightarrow> bool" where
  "matches_filter lower flt item =
     (if flt \<noteq> [] then Contains (lower (Name item)) (lower flt) else True)"

definition updateDisplayItems ::
  "(string \<Rightarrow> string) \<Rightarrow> ('w, 'a) Model \<Rightarrow> ('w, 'a) Model" where
  "updateDisplayItems lower m =
     (let m0 = m\<lparr>displayItems := []\<rparr>
      in case walk (folderTree m0) (currentPath m0) of
           None \<Rightarrow> m0
         | Some current \<Rightarrow>
             (let items = sort_items
                    (filter (matches_filter lower (filterText m0)) (map snd (Children current)));
                  m1 = m0\<lparr>displayItems := items\<rparr>;
                  m2 = (if cursor m1 \<ge> int (length (displayItems m1))
                        then m1\<lparr>cursor := int (length (displayItems m1)) - 1\<rparr> else m1);
                  m3 = (if cursor m2 < 0 then m2\<lparr>cursor := 0\<rparr> else m2)
              in m3\<lparr>listOffset := 0\<rparr>))"

subsection \<open>Time\<close>

text \<open>
  \<^verbatim>\<open>time.Duration\<close> is an \<^verbatim>\<open>int64\<close>: \<open>wrap64\<close> is the wrap-around of Go's integer
  arithmetic, \<open>sat64\<close> the saturation of \<^verbatim>\<open>Time.Sub\<close>. The configured timeouts are Go
  \<^verbatim>\<open>int\<close>s (64 bits on the platforms the program is built for), converted by
  \<^verbatim>\<open>time.Duration(n) * time.Second\<close> and \<^verbatim>\<open>time.Duration(n) * time.Minute\<close>.
\<close>

definition wrap64 :: "int \<Rightarrow> int" where
  "wrap64 n = (n + 2 ^ 63) mod 2 ^ 64 - 2 ^ 63"

definition sat64 :: "int \<Rightarrow> int" where
  "sat64 n = max (- (2 ^ 63)) (min (2 ^ 63 - 1) n)"

definition Second :: int where
  "Second = 1000000000"

definition Minute :: int where
  "Minute = 60 * Second"

definition seconds :: "int \<Rightarrow> int" where
  "seconds n = wrap64 (n * Second)"

definition minutes :: "int \<Rightarrow> int" where
  "minutes n = wrap64 (n * Minute)"

text \<open>\<^verbatim>\<open>time.Until(t)\<close> and \<^verbatim>\<open>time.Since(t)\<close> at the instant \<open>now\<close>.\<close>

definition Until :: "int \<Rightarrow> int \<Rightarrow> int" where
  "Until now t = sat64 (t - now)"

definition Since :: "int \<Rightarrow> int \<Rightarrow> int" where
  "Since now t = sat64 (now - t)"

subsection \<open>Messages, commands, effects\<close>

text \<open>
  A key message is the string \<^verbatim>\<open>msg.String()\<close> of the key. An \<^verbatim>\<open>error\<close> is its text,
  \<^verbatim>\<open>nil\<close> is \<open>None\<close>. The \<^verbatim>\<open>value\<close> of \<open>secretValueMsg\<close> is a slice, a reference into
  the store.
\<close>

datatype Msg =
    KeyMsg string
  | MouseMsg
  | WindowSizeMsg int int
  | clientInitializedMsg "string option" "string option"
  | secretsLoadedMsg "gcp_Secret list" "string option"
  | versionsLoadedMsg "gcp_SecretVersion list" "string option"
  | secretCreatedMsg string "string option"
  | secretDeletedMsg string "string option"
  | versionAddedMsg "gcp_SecretVersion option" "string option"
  | secretValueMsg string "nat option" string "string option"
  | secretCopiedMsg string string "string option"
  | clipboardClearMsg
  | clipboardTickMsg int
  | sessionTimeoutMsg int
  | OtherMsg

text \<open>The tasks \<^verbatim>\<open>Update\<close> returns (\<^verbatim>\<open>tea.Cmd\<close>), named after the functions that build them.\<close>

datatype Cmd =
    Quit
  | Blink
  | initializeClient
  | loadSecrets
  | loadVersions string
  | accessSecretVersion string string
  | copySecretValue string string
  | clipboardTickCmd
  | clearClipboardCmd
  | sessionTimeoutTickCmd
  | WidgetCmd nat

datatype EventResult = ResultSuccess | ResultFailure

text \<open>The calls on \<^verbatim>\<open>m.auditLogger\<close>, with their arguments.\<close>

datatype AuditCall =
    SetUser string
  | LogSessionStart string
  | LogSecretList string int EventResult string
  | LogSecretCreate string string EventResult string
  | LogSecretDelete string string EventResult string
  | LogVersionAdd string string string EventResult string
  | LogSecretReveal string string string EventResult string
  | LogSecretCopy string string string EventResult string
  | LogClipboardClear
  | LogSessionLock string string
  | LogSessionUnlock string

datatype Effect =
    ClipboardWriteText string
  | ClipboardClear
  | Audit AuditCall

text \<open>
  What one call of \<^verbatim>\<open>Update\<close> reads from outside: the clock, and the result of
  \<^verbatim>\<open>clipboard.WriteText\<close> should the call write to the clipboard.
\<close>

record Env =
  now :: int
  writeErr :: "string option"

text \<open>
  Library code the handlers call: the methods of \<^verbatim>\<open>textinput.Model\<close> and
  \<^verbatim>\<open>textarea.Model\<close> (the command that \<^verbatim>\<open>Update\<close> of a widget returns is a number,
  or \<open>None\<close> for \<^verbatim>\<open>nil\<close>; it becomes the task \<open>WidgetCmd\<close>),
  \<^verbatim>\<open>strings.ToLower\<close>, parsing and executing a \<^verbatim>\<open>text/template\<close>
  (template text, short name, full name, project; the result is the output or the error
  text of \<^verbatim>\<open>generateCode\<close>), and the floating-point conversion
  \<^verbatim>\<open>int(d.Seconds())\<close> of a duration.
\<close>

record ('w, 'a) library =
  SetValue :: "string \<Rightarrow> 'w \<Rightarrow> 'w"
  Value :: "'w \<Rightarrow> string"
  Focus :: "'w \<Rightarrow> 'w"
  UpdateInput :: "string \<Rightarrow> 'w \<Rightarrow> 'w \<times> nat option"
  AreaSetValue :: "string \<Rightarrow> 'a \<Rightarrow> 'a"
  ToLower :: "string \<Rightarrow> string"
  ExecuteTemplate :: "string \<Rightarrow> string \<Rightarrow> string \<Rightarrow> string \<Rightarrow> string"
  WholeSeconds :: "int \<Rightarrow> int"

text \<open>
  The outcome of a handler: the new model and store with the effects and the commands, a
  panic, or \<open>Elsewhere v\<close>: the key went to the handler of view \<open>v\<close>, one of the
  form and settings views, which this development does not embed.
\<close>

datatype 'r outcome = Ok 'r | Panic | Elsewhere View

type_synonym ('w, 'a) step = "(('w, 'a) Model \<times> heap \<times> Effect list \<times> Cmd list) outcome"

text \<open>\<^verbatim>\<open>fmt.Sprintf("%d", n)\<close>.\<close>

fun digits :: "nat \<Rightarrow> string" where
  "digits n = (if n < 10 then [char_of (48 + n)] else digits (n div 10) @ [char_of (48 + n mod 10)])"

definition itoa :: "int \<Rightarrow> string" where
  "itoa i = (if i < 0 then CHR ''-'' # digits (nat (- i)) else digits (nat i))"

text \<open>The icons of the status lines, byte for byte as they stand in the source file.\<close>

definition icon_clipboard :: string where
  "icon_clipboard = [CHR 0xC3, CHR 0xB0, CHR 0xC5, CHR 0xB8, CHR 0xE2, CHR 0x80, CHR 0x9C,
     CHR 0xE2, CHR 0x80, CHR 0xB9]"

definition icon_check :: string where
  "icon_check = [CHR 0xC3, CHR 0xA2, CHR 0xC5, CHR 0x93, CHR 0xE2, CHR 0x80, CHR 0x9C]"

definition icon_lock :: string where
  "icon_lock = [CHR 0xC3, CHR 0xB0, CHR 0xC5, CHR 0xB8, CHR 0xE2, CHR 0x80, CHR 0x9D,
     CHR 0xE2, CHR 0x80, CHR 0x99]"

definition icon_unlock :: string where
  "icon_unlock = [CHR 0xC3, CHR 0xB0, CHR 0xC5, CHR 0xB8, CHR 0xE2, CHR 0x80, CHR 0x9D,
     CHR 0xE2, CHR 0x80, CHR 0x9C]"

text \<open>\<^verbatim>\<open>if m.auditLogger != nil { m.auditLogger.\<dots> }\<close>.\<close>

definition audit :: "('w, 'a) Model \<Rightarrow> AuditCall \<Rightarrow> Effect list" where
  "audit m c = (if auditLogger m then [Audit c] else [])"

subsection \<open>The handlers of the views\<close>

definition updateLocked :: "Env \<Rightarrow> string \<Rightarrow> ('w, 'a) Model \<Rightarrow> heap \<Rightarrow> ('w, 'a) step" where
  "updateLocked env key m h =
     (if key = ''enter'' \<or> key = '' '' then
        (let m1 = m\<lparr>sessionLocked := False, view := lockedPrevView m, lastActivity := now env\<rparr>;
             fx = audit m1 (LogSessionUnlock (ProjectID (config m1)));
             m2 = m1\<lparr>statusMsg := icon_unlock @ '' Session unlocked'', statusErr := False\<rparr>
         in Ok (m2, h, fx, []))
      else if key = ''q'' then Ok (m, h, [], [Quit])
      else Ok (m, h, [], []))"

definition updateReveal :: "Env \<Rightarrow> string \<Rightarrow> ('w, 'a) Model \<Rightarrow> heap \<Rightarrow> ('w, 'a) step" where
  "updateReveal env key m h =
     (if key = ''esc'' \<or> key = ''backspace'' \<or> key = ''enter'' \<or> key = ''r'' then
        (let m1 = m\<lparr>view := ViewDetail\<rparr>;
             h1 = zero_slice (revealedValue m1) h;
             m2 = m1\<lparr>revealedValue := None, revealVersion := []\<rparr>
         in Ok (m2, h1, [], []))
      else if key = ''c'' \<or> key = ''y'' then
        (if length (slice_bytes (revealedValue m) h) > 0 then
           (let fx = [ClipboardWriteText (string_of_bytes (slice_bytes (revealedValue m) h))]
            in case writeErr env of
                 Some err \<Rightarrow>
                   Ok (m\<lparr>statusMsg := ''Error copying: '' @ err, statusErr := True\<rparr>, h, fx, [])
               | None \<Rightarrow>
                   (if Clipboard_AutoClear (config m) \<and> Clipboard_TimeoutSeconds (config m) > 0
                    then
                      (let timeout = seconds (Clipboard_TimeoutSeconds (config m));
                           m1 = m\<lparr>clipboardClearAt := now env + timeout,
                                  clipboardActive := True\<rparr>;
                           remaining = Clipboard_TimeoutSeconds (config m1);
                           m2 = m1\<lparr>statusMsg := icon_clipboard @ '' Copied! Auto-clear in ''
                                    @ itoa remaining @ ''s'',
                                  statusErr := False\<rparr>
                       in Ok (m2, h, fx, [clipboardTickCmd]))
                    else
                      Ok (m\<lparr>statusMsg := icon_check @ '' Secret value copied to clipboard'',
                            statusErr := False\<rparr>, h, fx, [])))
         else Ok (m, h, [], []))
      else Ok (m, h, [], []))"

definition updateDetail ::
  "('w, 'a) library \<Rightarrow> string \<Rightarrow> ('w, 'a) Model \<Rightarrow> heap \<Rightarrow> ('w, 'a) step" where
  "updateDetail L key m h =
     (if loading m then Ok (m, h, [], [])
      else if key = ''up'' \<or> key = ''k'' then
        Ok ((if versionCursor m > 0 then m\<lparr>versionCursor := versionCursor m - 1\<rparr> else m),
            h, [], [])
      else if key = ''down'' \<or> key = ''j'' then
        Ok ((if versionCursor m < int (length (versions m)) - 1
             then m\<lparr>versionCursor := versionCursor m + 1\<rparr> else m), h, [], [])
      else if key = ''esc'' \<or> key = ''backspace'' \<or> key = ''h'' then
        (let m1 = m\<lparr>view := ViewList, selectedSecret := None, versions := []\<rparr>;
             h1 = zero_slice (revealedValue m1) h
         in Ok (m1\<lparr>revealedValue := None\<rparr>, h1, [], []))
      else if key = ''r'' then
        (if length (versions m) > 0 then
           (if 0 \<le> versionCursor m \<and> versionCursor m < int (length (versions m)) then
              (let version = versions m ! nat (versionCursor m);
                   m1 = m\<lparr>loading := True, loadingMsg := ''Accessing secret...''\<rparr>
               in case selectedSecret m1 of
                    None \<Rightarrow> Panic
                  | Some s \<Rightarrow>
                      Ok (m1, h, [],
                          [accessSecretVersion (secret_Name s) (version_Name version)]))
            else Panic)
         else Ok (m, h, [], []))
      else if key = ''c'' \<or> key = ''y'' then
        (if length (versions m) > 0 then
           (if 0 \<le> versionCursor m \<and> versionCursor m < int (length (versions m)) then
              (let version = versions m ! nat (versionCursor m);
                   m1 = m\<lparr>loading := True, loadingMsg := ''Copying to clipboard...''\<rparr>
               in case selectedSecret m1 of
                    None \<Rightarrow> Panic
                  | Some s \<Rightarrow>
                      Ok (m1, h, [], [copySecretValue (secret_Name s) (version_Name version)]))
            else Panic)
         else Ok (m, h, [], []))
      else if key = ''a'' then
        Ok (m\<lparr>view := ViewAddVersion,
              versionInput := Focus L (SetValue L [] (versionInput m))\<rparr>, h, [], [Blink])
      else if key = ''g'' then
        Ok (m\<lparr>view := ViewGenerate, templateCursor := 0, generatedCode := []\<rparr>, h, [], [])
      else if key = ''d'' then
        Ok (m\<lparr>view := ViewDelete, deleteConfirm := False\<rparr>, h, [], [])
      else if key = ''q'' then Ok (m, h, [], [Quit])
      else Ok (m, h, [], []))"

definition updateList ::
  "('w, 'a) library \<Rightarrow> string \<Rightarrow> ('w, 'a) Model \<Rightarrow> heap \<Rightarrow> ('w, 'a) step" where
  "updateList L key m h =
     (if loading m then Ok (m, h, [], [])
      else
        let visibleHeight = (if height m - 10 < 5 then 5 else height m - 10) in
        if key = ''up'' \<or> key = ''k'' then
          Ok ((if cursor m > 0 then
                 (let m1 = m\<lparr>cursor := cursor m - 1\<rparr>
                  in if cursor m1 < listOffset m1 then m1\<lparr>listOffset := cursor m1\<rparr> else m1)
               else m), h, [], [])
        else if key = ''down'' \<or> key = ''j'' then
          Ok ((if cursor m < int (length (displayItems m)) - 1 then
                 (let m1 = m\<lparr>cursor := cursor m + 1\<rparr>
                  in if cursor m1 \<ge> listOffset m1 + visibleHeight
                     then m1\<lparr>listOffset := cursor m1 - visibleHeight + 1\<rparr> else m1)
               else m), h, [], [])
        else if key = ''g'' then Ok (m\<lparr>cursor := 0, listOffset := 0\<rparr>, h, [], [])
        else if key = ''G'' then
          Ok ((if length (displayItems m) > 0 then
                 (let m1 = m\<lparr>cursor := int (length (displayItems m)) - 1\<rparr>
                  in if cursor m1 \<ge> visibleHeight
                     then m1\<lparr>listOffset := cursor m1 - visibleHeight + 1\<rparr> else m1)
               else m), h, [], [])
        else if key = ''enter'' \<or> key = ''l'' then
          (if length (displayItems m) > 0 then
             (if 0 \<le> cursor m \<and> cursor m < int (length (displayItems m)) then
                (let item = displayItems m ! nat (cursor m)
                 in if IsFolder item then
                      (let m1 = m\<lparr>currentPath := currentPath m @ [Name item]\<rparr>;
                           m2 = updateDisplayItems (ToLower L) m1
                       in Ok (m2\<lparr>cursor := 0, listOffset := 0\<rparr>, h, [], []))
                    else
                      (case Secret item of
                         Some s \<Rightarrow>
                           Ok (m\<lparr>selectedSecret := Some s, view := ViewDetail,
                                 versionCursor := 0, loading := True,
                                 loadingMsg := ''Loading versions...''\<rparr>,
                               h, [], [loadVersions (secret_Name s)])
                       | None \<Rightarrow> Ok (m, h, [], [])))
              else Panic)
           else Ok (m, h, [], []))
        else if key = ''backspace'' \<or> key = ''h'' \<or> key = ''esc'' then
          (if length (currentPath m) > 0 then
             (let m1 = m\<lparr>currentPath := butlast (currentPath m)\<rparr>;
                  m2 = updateDisplayItems (ToLower L) m1
              in Ok (m2\<lparr>cursor := 0, listOffset := 0\<rparr>, h, [], []))
           else if filterText m \<noteq> [] then
             (let m1 = m\<lparr>filterText := [], filterInput := SetValue L [] (filterInput m)\<rparr>
              in Ok (updateDisplayItems (ToLower L) m1, h, [], []))
           else Ok (m, h, [], []))
        else if key = ''/'' then
          Ok (m\<lparr>view := ViewFilter, filterInput := Focus L (filterInput m)\<rparr>, h, [], [Blink])
        else if key = ''n'' then
          (case createInputs m of
             [] \<Rightarrow> Panic
           | w0 # ws \<Rightarrow>
               (let m1 = m\<lparr>view := ViewCreate\<rparr>;
                    w1 = SetValue L (Join (currentPath m1) (FolderSeparator (config m1))) w0;
                    w2 = (if length (currentPath m1) > 0
                          then SetValue L (Value L w1 @ FolderSeparator (config m1)) w1 else w1);
                    w3 = Focus L w2;
                    m2 = m1\<lparr>createInputs := w3 # ws, createFocus := 0\<rparr>;
                    m3 = (if length (SecretLocations (config m2)) > 0
                          then m2\<lparr>createLocationIdx := 1\<rparr> else m2\<lparr>createLocationIdx := 0\<rparr>);
                    m4 = m3\<lparr>createAddingLoc := False, createEditorMode := False,
                            createValueArea := AreaSetValue L [] (createValueArea m3)\<rparr>
                in Ok (m4, h, [], [Blink])))
        else if key = ''d'' then
          (if length (displayItems m) > 0 then
             (if 0 \<le> cursor m \<and> cursor m < int (length (displayItems m)) then
                (if \<not> IsFolder (displayItems m ! nat (cursor m)) then
                   Ok (m\<lparr>selectedSecret := Secret (displayItems m ! nat (cursor m)),
                         view := ViewDelete, deleteConfirm := False\<rparr>, h, [], [])
                 else Ok (m, h, [], []))
              else Panic)
           else Ok (m, h, [], []))
        else if key = ''ctrl+r'' then
          Ok (m\<lparr>loading := True, loadingMsg := ''Refreshing...''\<rparr>, h, [], [loadSecrets])
        else if key = ''ctrl+s'' then
          Ok (m\<lparr>view := ViewConfigMenu, configMenuCursor := 0\<rparr>, h, [], [])
        else if key = ''q'' then Ok (m, h, [], [Quit])
        else Ok (m, h, [], []))"

definition updateFilter ::
  "('w, 'a) library \<Rightarrow> string \<Rightarrow> ('w, 'a) Model \<Rightarrow> heap \<Rightarrow> ('w, 'a) step" where
  "updateFilter L key m h =
     (if key = ''enter'' \<or> key = ''esc'' then
        (let m1 = m\<lparr>view := ViewList, filterText := Value L (filterInput m)\<rparr>;
             m2 = updateDisplayItems (ToLower L) m1
         in Ok (m2\<lparr>cursor := 0\<rparr>, h, [], []))
      else
        (let (w, cmd) = UpdateInput L key (filterInput m);
             m1 = m\<lparr>filterInput := w\<rparr>;
             m2 = m1\<lparr>filterText := Value L (filterInput m1)\<rparr>;
             m3 = updateDisplayItems (ToLower L) m2
         in Ok (m3, h, [], (case cmd of None \<Rightarrow> [] | Some c \<Rightarrow> [WidgetCmd c]))))"

text \<open>\<^verbatim>\<open>generateCode\<close>; \<open>None\<close> is a panic (an index out of range).\<close>

definition generateCode :: "('w, 'a) library \<Rightarrow> ('w, 'a) Model \<Rightarrow> int \<Rightarrow> string option" where
  "generateCode L m templateIdx =
     (case selectedSecret m of
        None \<Rightarrow> Some []
      | Some s \<Rightarrow>
          if templateIdx \<ge> int (length (Templates (config m))) then Some []
          else if templateIdx < 0 then None
          else
            (let tpl = Templates (config m) ! nat templateIdx;
                 parts = Split (secret_Name s) (FolderSeparator (config m))
             in if parts = [] then None
                else Some (ExecuteTemplate L (snd tpl) (last parts) (secret_Name s)
                             (ProjectID (config m)))))"

definition updateGenerate ::
  "('w, 'a) library \<Rightarrow> Env \<Rightarrow> string \<Rightarrow> ('w, 'a) Model \<Rightarrow> heap \<Rightarrow> ('w, 'a) step" where
  "updateGenerate L env key m h =
     (if key = ''up'' \<or> key = ''k'' then
        Ok ((if templateCursor m > 0 then m\<lparr>templateCursor := templateCursor m - 1\<rparr> else m),
            h, [], [])
      else if key = ''down'' \<or> key = ''j'' then
        Ok ((if templateCursor m < int (length (Templates (config m))) - 1
             then m\<lparr>templateCursor := templateCursor m + 1\<rparr> else m), h, [], [])
      else if key = ''enter'' then
        (case generateCode L m (templateCursor m) of
           None \<Rightarrow> Panic
         | Some code \<Rightarrow> Ok (m\<lparr>generatedCode := code\<rparr>, h, [], []))
      else if key = ''c'' \<or> key = ''y'' then
        (if generatedCode m \<noteq> [] then
           (let fx = [ClipboardWriteText (generatedCode m)]
            in case writeErr env of
                 Some err \<Rightarrow>
                   Ok (m\<lparr>statusMsg := ''Failed to copy to clipboard'', statusErr := True\<rparr>,
                       h, fx, [])
               | None \<Rightarrow>
                   (let m1 = m\<lparr>statusMsg := ''Code copied to clipboard!'', statusErr := False\<rparr>
                    in if Clipboard_AutoClear (config m1) then
                         Ok (m1\<lparr>clipboardClearAt :=
                                   now env + seconds (Clipboard_TimeoutSeconds (config m1)),
                                 clipboardActive := True\<rparr>, h, fx, [clipboardTickCmd])
                       else Ok (m1, h, fx, [])))
         else Ok (m, h, [], []))
      else if key = ''esc'' \<or> key = ''backspace'' \<or> key = ''h'' then
        Ok (m\<lparr>view := ViewDetail, generatedCode := []\<rparr>, h, [], [])
      else Ok (m, h, [], []))"

subsection \<open>\<^verbatim>\<open>Update\<close>\<close>

text \<open>The branch \<^verbatim>\<open>case tea.KeyMsg\<close>: the global precedence rules, then the view's handler.\<close>

definition on_KeyMsg ::
  "('w, 'a) library \<Rightarrow> Env \<Rightarrow> string \<Rightarrow> ('w, 'a) Model \<Rightarrow> heap \<Rightarrow> ('w, 'a) step" where
  "on_KeyMsg L env key m h =
     (if key = ''ctrl+c'' then Ok (m, h, [], [Quit])
      else if sessionLocked m then updateLocked env key m h
      else if key = ''ctrl+p'' \<and> view m \<noteq> ViewProjectPrompt \<and> view m \<noteq> ViewProjectSwitch
              \<and> view m \<noteq> ViewLocked then
        Ok (m\<lparr>projectSwitchPrevView := view m, view := ViewProjectSwitch,
              projectSwitchCursor := 0,
              projectSwitchInput := Focus L (SetValue L [] (projectSwitchInput m))\<rparr>,
            h, [], [Blink])
      else
        (case view m of
           ViewList \<Rightarrow> updateList L key m h
         | ViewDetail \<Rightarrow> updateDetail L key m h
         | ViewGenerate \<Rightarrow> updateGenerate L env key m h
         | ViewFilter \<Rightarrow> updateFilter L key m h
         | ViewReveal \<Rightarrow> updateReveal env key m h
         | ViewLocked \<Rightarrow> updateLocked env key m h
         | v \<Rightarrow> Elsewhere v))"

definition on_clientInitializedMsg ::
  "string option \<Rightarrow> string option \<Rightarrow> ('w, 'a) Model \<Rightarrow> heap \<Rightarrow> ('w, 'a) step" where
  "on_clientInitializedMsg c err m h =
     (case err of
        Some e \<Rightarrow>
          Ok (m\<lparr>statusMsg := ''Error: '' @ e, statusErr := True, loading := False\<rparr>, h, [], [])
      | None \<Rightarrow>
          (let m1 = m\<lparr>client := c\<rparr>
           in if auditLogger m1 then
                (case c of
                   None \<Rightarrow> Panic
                 | Some email \<Rightarrow>
                     Ok (m1\<lparr>loading := True, loadingMsg := ''Loading secrets...''\<rparr>, h,
                         [Audit (SetUser email),
                          Audit (LogSessionStart (ProjectID (config m1)))],
                         [loadSecrets]))
              else
                Ok (m1\<lparr>loading := True, loadingMsg := ''Loading secrets...''\<rparr>, h, [],
                    [loadSecrets])))"

definition on_secretsLoadedMsg ::
  "('w, 'a) library \<Rightarrow> gcp_Secret list \<Rightarrow> string option \<Rightarrow> ('w, 'a) Model \<Rightarrow> heap
    \<Rightarrow> ('w, 'a) step" where
  "on_secretsLoadedMsg L ss err m h =
     (let m1 = m\<lparr>loading := False\<rparr>
      in case err of
           Some e \<Rightarrow>
             Ok (m1\<lparr>statusMsg := ''Error loading secrets: '' @ e, statusErr := True\<rparr>, h,
                 audit m1 (LogSecretList (ProjectID (config m1)) 0 ResultFailure e), [])
         | None \<Rightarrow>
             (let m2 = updateDisplayItems (ToLower L) (buildFolderTree (m1\<lparr>secrets := ss\<rparr>));
                  m3 = m2\<lparr>statusMsg := ''Loaded '' @ itoa (int (length (secrets m2)))
                           @ '' secrets'',
                         statusErr := False\<rparr>
              in Ok (m3, h,
                     audit m3 (LogSecretList (ProjectID (config m3))
                       (int (length (secrets m3))) ResultSuccess []), [])))"

definition on_versionsLoadedMsg ::
  "gcp_SecretVersion list \<Rightarrow> string option \<Rightarrow> ('w, 'a) Model \<Rightarrow> heap \<Rightarrow> ('w, 'a) step" where
  "on_versionsLoadedMsg vs err m h =
     (let m1 = m\<lparr>loading := False\<rparr>
      in case err of
           Some e \<Rightarrow>
             Ok (m1\<lparr>statusMsg := ''Error loading versions: '' @ e, statusErr := True\<rparr>,
                 h, [], [])
         | None \<Rightarrow> Ok (m1\<lparr>versions := vs\<rparr>, h, [], []))"

definition on_secretCreatedMsg ::
  "string \<Rightarrow> string option \<Rightarrow> ('w, 'a) Model \<Rightarrow> heap \<Rightarrow> ('w, 'a) step" where
  "on_secretCreatedMsg name err m h =
     (let m1 = m\<lparr>loading := False\<rparr>
      in case err of
           Some e \<Rightarrow>
             Ok (m1\<lparr>statusMsg := ''Error creating secret: '' @ e, statusErr := True\<rparr>, h,
                 audit m1 (LogSecretCreate (ProjectID (config m1)) name ResultFailure e), [])
         | None \<Rightarrow>
             (let m2 = m1\<lparr>statusMsg := ''Secret created successfully'', statusErr := False\<rparr>
              in Ok (m2\<lparr>view := ViewList\<rparr>, h,
                     audit m2 (LogSecretCreate (ProjectID (config m2)) name ResultSuccess []),
                     [loadSecrets])))"

definition on_secretDeletedMsg ::
  "string \<Rightarrow> string option \<Rightarrow> ('w, 'a) Model \<Rightarrow> heap \<Rightarrow> ('w, 'a) step" where
  "on_secretDeletedMsg name err m h =
     (let m1 = m\<lparr>loading := False\<rparr>
      in case err of
           Some e \<Rightarrow>
             Ok (m1\<lparr>statusMsg := ''Error deleting secret: '' @ e, statusErr := True\<rparr>, h,
                 audit m1 (LogSecretDelete (ProjectID (config m1)) name ResultFailure e), [])
         | None \<Rightarrow>
             (let m2 = m1\<lparr>statusMsg := ''Secret deleted successfully'', statusErr := False\<rparr>
              in Ok (m2\<lparr>view := ViewList, selectedSecret := None\<rparr>, h,
                     audit m2 (LogSecretDelete (ProjectID (config m2)) name ResultSuccess []),
                     [loadSecrets])))"

definition on_versionAddedMsg ::
  "gcp_SecretVersion option \<Rightarrow> string option \<Rightarrow> ('w, 'a) Model \<Rightarrow> heap \<Rightarrow> ('w, 'a) step" where
  "on_versionAddedMsg version err m h =
     (let m1 = m\<lparr>loading := False\<rparr>
      in case err of
           Some e \<Rightarrow>
             Ok (m1\<lparr>statusMsg := ''Error adding version: '' @ e, statusErr := True\<rparr>, h,
                 (case selectedSecret m1 of
                    None \<Rightarrow> []
                  | Some s \<Rightarrow>
                      audit m1 (LogVersionAdd (ProjectID (config m1)) (secret_Name s) []
                        ResultFailure e)), [])
         | None \<Rightarrow>
             (case version of
                None \<Rightarrow> Panic
              | Some v \<Rightarrow>
                  (let m2 = m1\<lparr>statusMsg := ''Version '' @ version_Name v
                                @ '' added successfully'',
                              statusErr := False\<rparr>
                   in case selectedSecret m2 of
                        None \<Rightarrow> Panic
                      | Some s \<Rightarrow>
                          Ok (m2\<lparr>view := ViewDetail\<rparr>, h,
                              audit m2 (LogVersionAdd (ProjectID (config m2)) (secret_Name s)
                                (version_Name v) ResultSuccess []),
                              [loadVersions (secret_Name s)]))))"

definition on_secretValueMsg ::
  "string \<Rightarrow> nat option \<Rightarrow> string \<Rightarrow> string option \<Rightarrow> ('w, 'a) Model \<Rightarrow> heap
    \<Rightarrow> ('w, 'a) step" where
  "on_secretValueMsg secretName v version err m h =
     (let m1 = m\<lparr>loading := False\<rparr>
      in case err of
           Some e \<Rightarrow>
             Ok (m1\<lparr>statusMsg := ''Error accessing secret: '' @ e, statusErr := True\<rparr>, h,
                 audit m1 (LogSecretReveal (ProjectID (config m1)) secretName version
                   ResultFailure e), [])
         | None \<Rightarrow>
             (let (m2, h2) = setRevealedValue v m1 h;
                  h3 = zero_slice v h2;
                  m3 = m2\<lparr>revealVersion := version, view := ViewReveal\<rparr>
              in Ok (m3, h3,
                     audit m3 (LogSecretReveal (ProjectID (config m3)) secretName version
                       ResultSuccess []), [])))"

definition on_secretCopiedMsg ::
  "Env \<Rightarrow> string \<Rightarrow> string \<Rightarrow> string option \<Rightarrow> ('w, 'a) Model \<Rightarrow> heap \<Rightarrow> ('w, 'a) step" where
  "on_secretCopiedMsg env secretName version err m h =
     (let m1 = m\<lparr>loading := False\<rparr>
      in case err of
           Some e \<Rightarrow>
             Ok (m1\<lparr>statusMsg := ''Error copying: '' @ e, statusErr := True\<rparr>, h,
                 audit m1 (LogSecretCopy (ProjectID (config m1)) secretName version
                   ResultFailure e), [])
         | None \<Rightarrow>
             (let fx = audit m1 (LogSecretCopy (ProjectID (config m1)) secretName version
                         ResultSuccess [])
              in if Clipboard_AutoClear (config m1) \<and> Clipboard_TimeoutSeconds (config m1) > 0
                 then
                   (let timeout = seconds (Clipboard_TimeoutSeconds (config m1));
                        m2 = m1\<lparr>clipboardClearAt := now env + timeout,
                               clipboardActive := True\<rparr>;
                        remaining = Clipboard_TimeoutSeconds (config m2);
                        m3 = m2\<lparr>statusMsg := icon_clipboard @ '' Copied! Auto-clear in ''
                                 @ itoa remaining @ ''s'',
                               statusErr := False\<rparr>
                    in Ok (m3, h, fx, [clipboardTickCmd]))
                 else
                   Ok (m1\<lparr>statusMsg := icon_check @ '' Secret value copied to clipboard'',
                          statusErr := False\<rparr>, h, fx, [])))"

definition on_clipboardTickMsg ::
  "('w, 'a) library \<Rightarrow> Env \<Rightarrow> ('w, 'a) Model \<Rightarrow> heap \<Rightarrow> ('w, 'a) step" where
  "on_clipboardTickMsg L env m h =
     (if \<not> clipboardActive m then Ok (m, h, [], [])
      else
        (let remaining = Until (now env) (clipboardClearAt m)
         in if remaining \<le> 0 then Ok (m, h, [], [clearClipboardCmd])
            else
              Ok (m\<lparr>statusMsg := icon_clipboard @ '' Clipboard will clear in ''
                      @ itoa (WholeSeconds L remaining) @ ''s'',
                    statusErr := False\<rparr>, h, [], [clipboardTickCmd])))"

definition on_clipboardClearMsg :: "('w, 'a) Model \<Rightarrow> heap \<Rightarrow> ('w, 'a) step" where
  "on_clipboardClearMsg m h =
     (let m1 = m\<lparr>clipboardActive := False, statusMsg := icon_lock @ '' Clipboard cleared'',
                 statusErr := False\<rparr>
      in Ok (m1, h, audit m1 LogClipboardClear, []))"

definition on_sessionTimeoutMsg :: "Env \<Rightarrow> ('w, 'a) Model \<Rightarrow> heap \<Rightarrow> ('w, 'a) step" where
  "on_sessionTimeoutMsg env m h =
     (if Session_InactivityTimeout (config m) > 0 \<and> Session_LockOnTimeout (config m)
         \<and> Since (now env) (lastActivity m) > minutes (Session_InactivityTimeout (config m))
         \<and> \<not> sessionLocked m
      then
        (let m1 = m\<lparr>sessionLocked := True, lockedPrevView := view m, view := ViewLocked\<rparr>;
             (m2, h2) = clearRevealedValue m1 h;
             (m3, fx) = (if clipboardActive m2
                         then (m2\<lparr>clipboardActive := False\<rparr>, [ClipboardClear])
                         else (m2, []))
         in Ok (m3, h2,
                fx @ audit m3 (LogSessionLock (ProjectID (config m3)) ''inactivity_timeout''),
                [sessionTimeoutTickCmd]))
      else Ok (m, h, [], [sessionTimeoutTickCmd]))"

text \<open>
  \<^verbatim>\<open>Update\<close>: first the activity tracking, for key and mouse messages, then the
  dispatch on the message.
\<close>

definition Update ::
  "('w, 'a) library \<Rightarrow> Env \<Rightarrow> Msg \<Rightarrow> ('w, 'a) Model \<Rightarrow> heap \<Rightarrow> ('w, 'a) step" where
  "Update L env msg m0 h =
     (let m = (case msg of
                 KeyMsg key \<Rightarrow> m0\<lparr>lastActivity := now env\<rparr>
               | MouseMsg \<Rightarrow> m0\<lparr>lastActivity := now env\<rparr>
               | _ \<Rightarrow> m0)
      in case msg of
           KeyMsg key \<Rightarrow> on_KeyMsg L env key m h
         | MouseMsg \<Rightarrow> Ok (m, h, [], [])
         | WindowSizeMsg w ht \<Rightarrow>
             Ok (m\<lparr>width := w, height := ht, viewport := (w, ht - 6)\<rparr>, h, [], [])
         | clientInitializedMsg c err \<Rightarrow> on_clientInitializedMsg c err m h
         | secretsLoadedMsg ss err \<Rightarrow> on_secretsLoadedMsg L ss err m h
         | versionsLoadedMsg vs err \<Rightarrow> on_versionsLoadedMsg vs err m h
         | secretCreatedMsg name err \<Rightarrow> on_secretCreatedMsg name err m h
         | secretDeletedMsg name err \<Rightarrow> on_secretDeletedMsg name err m h
         | versionAddedMsg version err \<Rightarrow> on_versionAddedMsg version err m h
         | secretValueMsg secretName v version err \<Rightarrow>
             on_secretValueMsg secretName v version err m h
         | secretCopiedMsg secretName version err \<Rightarrow>
             on_secretCopiedMsg env secretName version err m h
         | clipboardClearMsg \<Rightarrow> on_clipboardClearMsg m h
         | clipboardTickMsg t \<Rightarrow> on_clipboardTickMsg L env m h
         | sessionTimeoutMsg t \<Rightarrow> on_sessionTimeoutMsg env m h
         | OtherMsg \<Rightarrow> Ok (m, h, [], []))"

subsection \<open>The audit log: \<^verbatim>\<open>Logger.Log\<close>\<close>

record Event =
  Timestamp :: string
  EventType :: string
  Result :: string
  User :: string
  EventProjectID :: string
  SecretName :: string
  Version :: string
  Details :: "(string \<times> string) list"
  Error :: string

text \<open>\<^verbatim>\<open>Logger\<close> without its mutex; \<open>file_handle\<close> is the field \<^verbatim>\<open>file\<close>, the handle of
  the open file.\<close>

record Logger =
  file_handle :: "nat option"
  enabled :: bool
  filePath :: string
  maxSizeMB :: int
  maxAgeDays :: int
  userEmail :: string

text \<open>
  The calls \<^verbatim>\<open>Log\<close> makes on the operating system, in program order, and what the
  operating system answers to them in one call of \<^verbatim>\<open>Log\<close>: the two readings of the clock
  as the code formats them, and the results of \<^verbatim>\<open>Write\<close>, \<^verbatim>\<open>Sync\<close>, \<^verbatim>\<open>Stat\<close>
  (an error or the size), \<^verbatim>\<open>Close\<close>, \<^verbatim>\<open>os.Rename\<close> and \<^verbatim>\<open>os.OpenFile\<close> (an error or the
  new handle).
\<close>

datatype FileOp =
    Write nat string
  | Sync nat
  | Stat nat
  | Close nat
  | Rename string string
  | OpenFile string
  | GoCleanupOldLogs
  | Stderr string

record LogEnv =
  utcNow :: string
  writeResult :: "string option"
  syncResult :: "string option"
  statResult :: "string + int"
  closeResult :: "string option"
  rotateStamp :: string
  renameResult :: "string option"
  openResult :: "string + nat"

definition rotate :: "LogEnv \<Rightarrow> nat \<Rightarrow> Logger \<Rightarrow> string option \<times> Logger \<times> FileOp list" where
  "rotate env f l =
     (case closeResult env of
        Some err \<Rightarrow> (Some err, l, [Close f])
      | None \<Rightarrow>
          (let rotatedPath = filePath l @ ''.'' @ rotateStamp env
           in case renameResult env of
                Some err \<Rightarrow> (Some err, l, [Close f, Rename (filePath l) rotatedPath])
              | None \<Rightarrow>
                  (case openResult env of
                     Inl err \<Rightarrow>
                       (Some err, l,
                        [Close f, Rename (filePath l) rotatedPath, OpenFile (filePath l)])
                   | Inr f' \<Rightarrow>
                       (None, l\<lparr>file_handle := Some f'\<rparr>,
                        [Close f, Rename (filePath l) rotatedPath, OpenFile (filePath l),
                         GoCleanupOldLogs]))))"

definition rotateIfNeeded :: "LogEnv \<Rightarrow> Logger \<Rightarrow> string option \<times> Logger \<times> FileOp list" where
  "rotateIfNeeded env l =
     (case file_handle l of
        None \<Rightarrow> (None, l, [])
      | Some f \<Rightarrow>
          (case statResult env of
             Inl err \<Rightarrow> (Some err, l, [Stat f])
           | Inr sz \<Rightarrow>
               (let maxBytes = wrap64 (wrap64 (maxSizeMB l * 1024) * 1024)
                in if sz < maxBytes then (None, l, [Stat f])
                   else (case rotate env f l of (err, l', ops) \<Rightarrow> (err, l', Stat f # ops)))))"

text \<open>
  \<^verbatim>\<open>Log\<close>. \<^verbatim>\<open>json.Marshal\<close> is the parameter \<open>marshal\<close> (an error or the bytes). The
  result is the error returned, the logger, and the calls made.
\<close>

definition Log ::
  "(Event \<Rightarrow> string + string) \<Rightarrow> LogEnv \<Rightarrow> Event \<Rightarrow> Logger
    \<Rightarrow> string option \<times> Logger \<times> FileOp list" where
  "Log marshal env event l =
     (if \<not> enabled l \<or> file_handle l = None then (None, l, [])
      else
        (let f = the (file_handle l);
             event1 = (if Timestamp event = [] then event\<lparr>Timestamp := utcNow env\<rparr> else event);
             event2 = (if User event1 = [] \<and> userEmail l \<noteq> []
                       then event1\<lparr>User := userEmail l\<rparr> else event1)
         in case marshal event2 of
              Inl err \<Rightarrow> (Some (''failed to marshal audit event: '' @ err), l, [])
            | Inr data \<Rightarrow>
                (case writeResult env of
                   Some err \<Rightarrow>
                     (Some (''failed to write audit event: '' @ err), l,
                      [Write f (data @ [CHR 0x0A])])
                 | None \<Rightarrow>
                     (case syncResult env of
                        Some err \<Rightarrow>
                          (Some (''failed to sync audit log: '' @ err), l,
                           [Write f (data @ [CHR 0x0A]), Sync f])
                      | None \<Rightarrow>
                          (case rotateIfNeeded env l of
                             (rerr, l', ops) \<Rightarrow>
                               (None, l',
                                [Write f (data @ [CHR 0x0A]), Sync f] @ ops @
                                (case rerr of
                                   None \<Rightarrow> []
                                 | Some e \<Rightarrow>
                                     [Stderr (''audit: rotation failed: '' @ e
                                        @ [CHR 0x0A])])))))))"

text \<open>
  Modelled from the spec: the wrapper \<^verbatim>\<open>LogSessionLock\<close>, which \<^verbatim>\<open>Update\<close> calls and
  \<^verbatim>\<open>audit.go\<close> as given does not contain. By sections 4.4 and 4.5 of the specification it is
  one of the convenience wrappers that funnel through \<^verbatim>\<open>log\<close>, and the event it hands
  over has the kind \<^verbatim>\<open>SESSION_LOCK\<close> and carries the reason.
\<close>

definition LogSessionLock_event :: "string \<Rightarrow> string \<Rightarrow> Event" where
  "LogSessionLock_event projectID reason =
     \<lparr>Timestamp = [], EventType = ''SESSION_LOCK'', Result = ''SUCCESS'', User = [],
      EventProjectID = projectID, SecretName = [], Version = [],
      Details = [(''reason'', reason)], Error = []\<rparr>"

subsection \<open>\<^verbatim>\<open>NewModel\<close> and example states\<close>

text \<open>
  \<^verbatim>\<open>NewModel\<close>. What \<^verbatim>\<open>textinput.New()\<close> and \<^verbatim>\<open>textarea.New()\<close> return are the parameters
  \<open>input\<close> and \<open>area\<close> (placeholders, limits and echo modes are inside the widgets);
  \<open>logger\<close> tells whether \<^verbatim>\<open>audit.NewLogger\<close> returned a logger, \<open>t0\<close> is the clock.
  Fields the struct literal leaves out have Go's zero value; the menu items are written
  without the icon in front of each.
\<close>

definition NewModel ::
  "('w, 'a) library \<Rightarrow> 'w \<Rightarrow> 'a \<Rightarrow> bool \<Rightarrow> int \<Rightarrow> Config \<Rightarrow> string \<Rightarrow> ('w, 'a) Model" where
  "NewModel L input area logger t0 cfg projectID =
     (let prompt = (projectID = [] \<and> ProjectID cfg = []);
          initialView = (if prompt then ViewProjectPrompt else ViewList);
          c0 = SetValue L (ProjectID cfg) input;
          c1 = SetValue L (FolderSeparator cfg) input;
          cfg' = (if \<not> prompt \<and> projectID \<noteq> [] then cfg\<lparr>ProjectID := projectID\<rparr> else cfg)
      in \<lparr>config = cfg', client = None, view = initialView, previousView = ViewProjectPrompt,
          width = 0, height = 0, secrets = [], folderTree = empty_root, currentPath = [],
          displayItems = [], cursor = 0, listOffset = 0, filterText = [], filterInput = input,
          selectedSecret = None, versions = [], versionCursor = 0, revealedValue = None,
          revealVersion = [], createInputs = [input, input], createFocus = 0,
          createLocationIdx = 0, createAddingLoc = False, createLocInput = input,
          createValueArea = area, createEditorMode = False, versionInput = input,
          templateCursor = 0, generatedCode = [],
          configInputs = [if prompt then Focus L c0 else c0, c1], configFocus = 0,
          configMenuCursor = 0,
          configMenuItems = [''Basic Settings'', ''Code Templates'', ''Recent Projects'',
            ''Security Settings'', ''Save & Exit''],
          templateListCursor = 0, editingTemplateIdx = 0, templateTitleInput = input,
          templateCodeArea = area, templateFocus = 0, isNewTemplate = False,
          recentProjectsCursor = 0, securityCursor = 0, auditLogLines = [],
          auditLogOffset = 0, projectSwitchCursor = 0, projectSwitchInput = input,
          projectSwitchPrevView = ViewProjectPrompt, deleteConfirm = False, statusMsg = [],
          statusErr = False, viewport = (0, 0), loading = (initialView = ViewList),
          loadingMsg = ''Loading secrets...'', clipboardClearAt = 0, clipboardActive = False,
          auditLogger = logger, lastActivity = t0, sessionLocked = False,
          lockedPrevView = ViewProjectPrompt\<rparr>)"

text \<open>
  Concrete values for evaluating the model: a library whose widgets are their text, the
  settings of \<^verbatim>\<open>DefaultConfig\<close> with a project and without templates, a store holding the
  two bytes of an arriving secret, and the states a short session runs through.
\<close>

definition ex_library :: "(string, string) library" where
  "ex_library =
     \<lparr>SetValue = (\<lambda>s w. s), Value = (\<lambda>w. w), Focus = (\<lambda>w. w),
      UpdateInput = (\<lambda>key w. (w @ key, None)), AreaSetValue = (\<lambda>s a. s),
      ToLower = (\<lambda>s. s), ExecuteTemplate = (\<lambda>code short full project. code),
      WholeSeconds = (\<lambda>d. d div Second)\<rparr>"

definition ex_config :: Config where
  "ex_config =
     \<lparr>ProjectID = ''demo'', FolderSeparator = ''/'', Templates = [], RecentProjects = [],
      SecretLocations = [], Clipboard_AutoClear = True, Clipboard_TimeoutSeconds = 30,
      Audit_Enabled = True, Audit_FilePath = [], Audit_MaxSizeMB = 10, Audit_MaxAgeDays = 90,
      Session_InactivityTimeout = 15, Session_LockOnTimeout = True\<rparr>"

definition ex_secret :: "string \<Rightarrow> gcp_Secret" where
  "ex_secret name =
     \<lparr>secret_Name = name, secret_FullName = ''projects/demo/secrets/'' @ name,
      secret_CreateTime = [], secret_Labels = [], secret_Replication = []\<rparr>"

definition ex_model :: "(string, string) Model" where
  "ex_model = NewModel ex_library [] [] True 0 ex_config []"

definition ex_heap :: heap where
  "ex_heap = \<lparr>cells = (\<lambda>a. if a = 0 then [0x73, 0x33] else []), nxt = 1\<rparr>"

definition at :: "int \<Rightarrow> Env" where
  "at t = \<lparr>now = t, writeErr = None\<rparr>"

text \<open>The state after the secret \<^verbatim>\<open>db\<close> has been revealed at time \<open>0\<close>: the reveal view.\<close>

definition ex_revealed :: "(string, string) Model \<times> heap" where
  "ex_revealed =
     (case Update ex_library (at 0) (secretValueMsg ''db'' (Some 0) ''1'' None) ex_model ex_heap
      of Ok (m, h, fx, cs) \<Rightarrow> (m, h) | _ \<Rightarrow> (ex_model, ex_heap))"

text \<open>A logger with an open file, an operating system that answers without errors, and a
  stand-in for \<^verbatim>\<open>json.Marshal\<close>.\<close>

definition ex_logger :: Logger where
  "ex_logger = \<lparr>file_handle = Some 3, enabled = True, filePath = ''/var/log/audit.log'',
     maxSizeMB = 10, maxAgeDays = 90, userEmail = ''ada@example.org''\<rparr>"

definition ex_log_env :: LogEnv where
  "ex_log_env = \<lparr>utcNow = ''2026-01-01T00:00:00Z'', writeResult = None, syncResult = None,
     statResult = Inr 120, closeResult = None, rotateStamp = ''20260101-000000'',
     renameResult = None, openResult = Inr 4\<rparr>"

definition ex_marshal :: "Event \<Rightarrow> string + string" where
  "ex_marshal e = Inr (Timestamp e @ '' '' @ EventType e @ '' '' @ User e)"

subsection \<open>Notions the properties are stated with\<close>

text \<open>Two nodes carry the same marks: they differ at most in their children.\<close>

definition same_marks :: "FolderItem \<Rightarrow> FolderItem \<Rightarrow> bool" where
  "same_marks n n' \<longleftrightarrow>
     Name n' = Name n \<and> FullPath n' = FullPath n \<and> IsFolder n' = IsFolder n
     \<and> Secret n' = Secret n \<and> Depth n' = Depth n"




text \<open>The cursor indexes the displayed list, if the list has an element.\<close>

definition cursor_ok :: "('w, 'a) Model \<Rightarrow> bool" where
  "cursor_ok m \<longleftrightarrow>
     displayItems m = [] \<or> (0 \<le> cursor m \<and> cursor m < int (length (displayItems m)))"









section \<open>Properties\<close>

subsection \<open>The vault\<close>

lemma zero_bytes_replicate: "zero_bytes bs = replicate (length bs) 0"
  by (induction bs) simp_all

lemma zero_bytes_all_zero: "b \<in> set (zero_bytes bs) \<Longrightarrow> b = 0"
  by (simp add: zero_bytes_replicate)

lemma length_zero_bytes [simp]: "length (zero_bytes bs) = length bs"
  by (simp add: zero_bytes_replicate)

text \<open>
  Claim C8. After \<^verbatim>\<open>clearRevealedValue\<close> the buffer the controller held (if it held one)
  keeps its length and every byte of it is zero, the controller holds no buffer, and
  \<^verbatim>\<open>getRevealedValueString\<close> returns the empty string.
\<close>

theorem clear_zeroes_and_empties:
  "case clearRevealedValue m h of (m', h') \<Rightarrow>
     revealedValue m' = None
     \<and> getRevealedValueString m' h' = []
     \<and> (case revealedValue m of
          None \<Rightarrow> h' = h
        | Some a \<Rightarrow> cells h' a = replicate (length (cells h a)) 0)"
  by (simp add: clearRevealedValue_def getRevealedValueString_def zero_buffer_def
      zero_bytes_replicate split: option.splits)

subsection \<open>The namespace tree\<close>

lemma same_marks_refl [simp]: "same_marks n n"
  by (simp add: same_marks_def)


lemma sel_set_Children [simp]:
  "Name (set_Children cs n) = Name n" "FullPath (set_Children cs n) = FullPath n"
  "IsFolder (set_Children cs n) = IsFolder n" "Secret (set_Children cs n) = Secret n"
  "Depth (set_Children cs n) = Depth n" "Children (set_Children cs n) = cs"
  by (simp_all add: set_Children_def)

lemma same_marks_set_Children [simp]: "same_marks n (set_Children cs n)"
  by (simp add: same_marks_def)


















subsection \<open>The displayed list\<close>

lemma length_insert_item [simp]: "length (insert_item x xs) = Suc (length xs)"
  by (induction xs) simp_all

lemma length_sort_items [simp]: "length (sort_items xs) = length xs"
  by (induction xs) (simp_all add: sort_items_def)

lemma updateDisplayItems_none:
  "walk (folderTree m) (currentPath m) = None \<Longrightarrow>
   updateDisplayItems lower m = m\<lparr>displayItems := []\<rparr>"
  by (simp add: updateDisplayItems_def)

lemma updateDisplayItems_some:
  assumes "walk (folderTree m) (currentPath m) = Some current"
  shows "listOffset (updateDisplayItems lower m) = 0
   \<and> 0 \<le> cursor (updateDisplayItems lower m)
   \<and> (displayItems (updateDisplayItems lower m) = [] \<longrightarrow> cursor (updateDisplayItems lower m) = 0)
   \<and> (displayItems (updateDisplayItems lower m) \<noteq> [] \<longrightarrow>
        cursor (updateDisplayItems lower m) < int (length (displayItems (updateDisplayItems lower m))))"
proof -
  define items where "items = sort_items
    (filter (matches_filter lower (filterText m)) (map snd (Children current)))"
  have eq: "updateDisplayItems lower m =
    (let m1 = m\<lparr>displayItems := items\<rparr>;
         m2 = (if cursor m1 \<ge> int (length items) then m1\<lparr>cursor := int (length items) - 1\<rparr> else m1);
         m3 = (if cursor m2 < 0 then m2\<lparr>cursor := 0\<rparr> else m2)
     in m3\<lparr>listOffset := 0\<rparr>)"
    using assms by (simp add: updateDisplayItems_def Let_def items_def del: filter_map)
  show ?thesis unfolding eq Let_def by (cases items) auto
qed

lemma cursor_ok_updateDisplayItems: "cursor_ok (updateDisplayItems lower m)"
proof (cases "walk (folderTree m) (currentPath m)")
  case None
  then show ?thesis by (simp add: updateDisplayItems_none cursor_ok_def)
next
  case (Some current)
  from updateDisplayItems_some [OF this, of lower] show ?thesis
    by (auto simp add: cursor_ok_def)
qed

lemma cursor_ok_reset:
  "cursor_ok m \<Longrightarrow> cursor_ok (m\<lparr>cursor := 0, listOffset := k\<rparr>)"
  "cursor_ok m \<Longrightarrow> cursor_ok (m\<lparr>cursor := 0\<rparr>)"
  by (auto simp add: cursor_ok_def)

lemma list_keys:
  fixes key :: string
  obtains "key = ''up''" | "key = ''k''" | "key = ''down''" | "key = ''j''" | "key = ''g''"
  | "key = ''G''" | "key = ''enter''" | "key = ''l''" | "key = ''backspace''" | "key = ''h''"
  | "key = ''esc''" | "key = ''/''" | "key = ''n''" | "key = ''d''" | "key = ''ctrl+r''"
  | "key = ''ctrl+s''" | "key = ''q''"
  | "key \<noteq> ''up''" "key \<noteq> ''k''" "key \<noteq> ''down''" "key \<noteq> ''j''" "key \<noteq> ''g''"
    "key \<noteq> ''G''" "key \<noteq> ''enter''" "key \<noteq> ''l''" "key \<noteq> ''backspace''" "key \<noteq> ''h''"
    "key \<noteq> ''esc''" "key \<noteq> ''/''" "key \<noteq> ''n''" "key \<noteq> ''d''" "key \<noteq> ''ctrl+r''"
    "key \<noteq> ''ctrl+s''" "key \<noteq> ''q''"
  by argo

lemma updateList_cursor_ok:
  assumes "cursor_ok m" "updateList L key m h = Ok (m', h', fx, cs)"
  shows "cursor_ok m'"
proof (cases "loading m")
  case True
  with assms show ?thesis by (simp add: updateList_def)
next
  case False
  note ok = cursor_ok_reset cursor_ok_updateDisplayItems
  from assms False show ?thesis
    by (cases rule: list_keys [of key])
      (auto simp add: updateList_def Let_def ok split: if_splits option.splits list.splits,
       auto simp add: cursor_ok_def)
qed


lemma updateList_no_panic:
  assumes "cursor_ok m" "createInputs m \<noteq> []"
  shows "updateList L key m h \<noteq> Panic"
proof (cases "loading m")
  case True
  then show ?thesis by (simp add: updateList_def)
next
  case False
  from assms False show ?thesis
    by (cases rule: list_keys [of key])
      (auto simp add: updateList_def Let_def cursor_ok_def
        split: if_splits option.splits list.splits)
qed

lemma updateFilter_cursor_ok:
  "updateFilter L key m h = Ok (m', h', fx, cs) \<Longrightarrow> cursor_ok m'"
  unfolding updateFilter_def Let_def
  by (auto simp add: cursor_ok_reset cursor_ok_updateDisplayItems split: if_splits prod.splits)

lemma createInputs_updateDisplayItems [simp]:
  "createInputs (updateDisplayItems lower m) = createInputs m"
  by (simp add: updateDisplayItems_def Let_def split: option.splits)

text \<open>
  Claim C10, as the code has it. After \<^verbatim>\<open>updateDisplayItems\<close> the cursor indexes the
  displayed list whenever the list has an element. When the current path resolves in the
  tree, the cursor is moreover not negative, it is \<open>0\<close> for an empty list, and the scroll
  offset is \<open>0\<close>. When a segment of the path is missing, the function returns early: the
  list is empty and the cursor and the scroll offset keep their values. The handlers of the
  list view and of the filter view keep the cursor inside a non-empty list, and with
  such a cursor no indexing of \<^verbatim>\<open>m.displayItems\<close> by \<^verbatim>\<open>updateList\<close> panics.
\<close>

theorem updateDisplayItems_cursor_in_bounds:
  "cursor_ok (updateDisplayItems lower m)
   \<and> (walk (folderTree m) (currentPath m) \<noteq> None \<longrightarrow>
        listOffset (updateDisplayItems lower m) = 0
        \<and> 0 \<le> cursor (updateDisplayItems lower m)
        \<and> (displayItems (updateDisplayItems lower m) = [] \<longrightarrow>
             cursor (updateDisplayItems lower m) = 0))
   \<and> (walk (folderTree m) (currentPath m) = None \<longrightarrow>
        displayItems (updateDisplayItems lower m) = []
        \<and> cursor (updateDisplayItems lower m) = cursor m
        \<and> listOffset (updateDisplayItems lower m) = listOffset m)
   \<and> (createInputs m \<noteq> [] \<longrightarrow> updateList L key (updateDisplayItems lower m) h \<noteq> Panic)
   \<and> (cursor_ok m0 \<and> updateList L key m0 h = Ok (m1, h1, fx, cs) \<longrightarrow> cursor_ok m1)
   \<and> (updateFilter L key m0 h = Ok (m1, h1, fx, cs) \<longrightarrow> cursor_ok m1)"
proof -
  have 1: "cursor_ok (updateDisplayItems lower m)" by (rule cursor_ok_updateDisplayItems)
  have 2: "walk (folderTree m) (currentPath m) \<noteq> None \<longrightarrow>
        listOffset (updateDisplayItems lower m) = 0
        \<and> 0 \<le> cursor (updateDisplayItems lower m)
        \<and> (displayItems (updateDisplayItems lower m) = [] \<longrightarrow>
             cursor (updateDisplayItems lower m) = 0)"
  proof
    assume "walk (folderTree m) (currentPath m) \<noteq> None"
    then obtain current where "walk (folderTree m) (currentPath m) = Some current" by blast
    from updateDisplayItems_some [OF this, of lower]
    show "listOffset (updateDisplayItems lower m) = 0
        \<and> 0 \<le> cursor (updateDisplayItems lower m)
        \<and> (displayItems (updateDisplayItems lower m) = [] \<longrightarrow>
             cursor (updateDisplayItems lower m) = 0)" by blast
  qed
  have 3: "walk (folderTree m) (currentPath m) = None \<longrightarrow>
        displayItems (updateDisplayItems lower m) = []
        \<and> cursor (updateDisplayItems lower m) = cursor m
        \<and> listOffset (updateDisplayItems lower m) = listOffset m"
    by (simp add: updateDisplayItems_none)
  have 4: "createInputs m \<noteq> [] \<longrightarrow> updateList L key (updateDisplayItems lower m) h \<noteq> Panic"
    using updateList_no_panic [OF cursor_ok_updateDisplayItems, of lower m L key h] by simp
  have 5: "cursor_ok m0 \<and> updateList L key m0 h = Ok (m1, h1, fx, cs) \<longrightarrow> cursor_ok m1"
    using updateList_cursor_ok by blast
  have 6: "updateFilter L key m0 h = Ok (m1, h1, fx, cs) \<longrightarrow> cursor_ok m1"
    using updateFilter_cursor_ok by blast
  show ?thesis by (intro conjI) (rule 1 2 3 4 5 6)+
qed

theorem updateDisplayItems_cursor_in_bounds_witness:
  "cursor_ok (updateDisplayItems (ToLower ex_library)
      (buildFolderTree (ex_model\<lparr>secrets := [ex_secret ''b''], cursor := 3\<rparr>)))
   \<and> cursor (updateDisplayItems (ToLower ex_library)
      (buildFolderTree (ex_model\<lparr>secrets := [ex_secret ''b''], cursor := 3\<rparr>))) = 0
   \<and> updateList ex_library ''enter'' (updateDisplayItems (ToLower ex_library)
      (buildFolderTree (ex_model\<lparr>secrets := [ex_secret ''b''], cursor := 3\<rparr>))) ex_heap \<noteq> Panic"
proof -
  let ?m = "buildFolderTree (ex_model\<lparr>secrets := [ex_secret ''b''], cursor := 3\<rparr>)"
  have c: "createInputs ?m \<noteq> []"
    by (simp add: buildFolderTree_def ex_model_def NewModel_def Let_def)
  have "cursor (updateDisplayItems (ToLower ex_library) ?m) = 0"
    by (simp add: updateDisplayItems_def buildFolderTree_def ex_model_def NewModel_def
        ex_config_def ex_secret_def insert_secret_def Split_def empty_root_def
        set_Children_def Let_def sort_items_def matches_filter_def)
  with c updateDisplayItems_cursor_in_bounds [of "ToLower ex_library" ?m ex_library
      "''enter''" ex_heap]
  show ?thesis by blast
qed

text \<open>
  The claim as it was stated fails where the path no longer resolves (the user stands in
  the folder \<^verbatim>\<open>team\<close>, the reloaded list holds only \<^verbatim>\<open>b\<close>): the list is empty, the
  cursor stays \<open>3\<close> and the scroll offset stays \<open>2\<close>.
\<close>

theorem stale_path_counterexample:
  "displayItems (updateDisplayItems (ToLower ex_library) (buildFolderTree
      (ex_model\<lparr>secrets := [ex_secret ''b''], currentPath := [''team''], cursor := 3,
         listOffset := 2\<rparr>))) = []
   \<and> cursor (updateDisplayItems (ToLower ex_library) (buildFolderTree
      (ex_model\<lparr>secrets := [ex_secret ''b''], currentPath := [''team''], cursor := 3,
         listOffset := 2\<rparr>))) = 3
   \<and> listOffset (updateDisplayItems (ToLower ex_library) (buildFolderTree
      (ex_model\<lparr>secrets := [ex_secret ''b''], currentPath := [''team''], cursor := 3,
         listOffset := 2\<rparr>))) = 2"
  by (simp add: updateDisplayItems_def buildFolderTree_def ex_model_def NewModel_def
      ex_config_def ex_secret_def insert_secret_def Split_def empty_root_def
      set_Children_def Let_def)

subsection \<open>Locked sessions and failed completions\<close>

text \<open>
  Claim C7. While the session is locked, a key other than the unlock keys (enter and
  space) changes no field of the model except \<^verbatim>\<open>lastActivity\<close>, which is set to the
  current time before the dispatch; the store is unchanged and nothing is written to the
  clipboard or the audit log. (The quit keys return the quit command, with the same
  model.)
\<close>

theorem locked_discards_keys:
  assumes "sessionLocked m" "key \<noteq> ''enter''" "key \<noteq> '' ''"
  shows "\<exists>cs. Update L env (KeyMsg key) m h = Ok (m\<lparr>lastActivity := now env\<rparr>, h, [], cs)"
  using assms by (simp add: Update_def on_KeyMsg_def updateLocked_def Let_def)

theorem locked_discards_keys_witness:
  "sessionLocked (ex_model\<lparr>sessionLocked := True, view := ViewLocked\<rparr>)
   \<and> ''x'' \<noteq> ''enter'' \<and> ''x'' \<noteq> '' ''
   \<and> (\<exists>cs. Update ex_library (at 5) (KeyMsg ''x'')
          (ex_model\<lparr>sessionLocked := True, view := ViewLocked\<rparr>) ex_heap
        = Ok (ex_model\<lparr>sessionLocked := True, view := ViewLocked, lastActivity := 5\<rparr>,
              ex_heap, [], cs))"
  using locked_discards_keys [of "ex_model\<lparr>sessionLocked := True, view := ViewLocked\<rparr>"
      "''x''" ex_library "at 5" ex_heap]
  by (simp add: at_def)

text \<open>
  Claim C6. Handling a completion message that carries an error (secrets loaded, versions
  loaded, secret created, secret deleted, version added, value accessed, copy completed)
  sets the error flag of the status line and a status text that ends with the error,
  leaves the view as it was, leaves the store as it was, and returns no task.
\<close>

theorem error_completion_keeps_view:
  assumes "msg \<in> {secretsLoadedMsg ss (Some e), versionsLoadedMsg vs (Some e),
      secretCreatedMsg name (Some e), secretDeletedMsg name (Some e),
      versionAddedMsg v (Some e), secretValueMsg name a version (Some e),
      secretCopiedMsg name version (Some e)}"
  shows "\<exists>m' fx pre. Update L env msg m h = Ok (m', h, fx, [])
      \<and> statusErr m' \<and> statusMsg m' = pre @ e \<and> pre \<noteq> [] \<and> view m' = view m"
proof -
  from assms consider
      "msg = secretsLoadedMsg ss (Some e)" | "msg = versionsLoadedMsg vs (Some e)"
    | "msg = secretCreatedMsg name (Some e)" | "msg = secretDeletedMsg name (Some e)"
    | "msg = versionAddedMsg v (Some e)" | "msg = secretValueMsg name a version (Some e)"
    | "msg = secretCopiedMsg name version (Some e)"
    by blast
  then show ?thesis
  proof cases
    case 1
    then show ?thesis by (simp add: Update_def on_secretsLoadedMsg_def Let_def)
  next
    case 2
    then show ?thesis by (simp add: Update_def on_versionsLoadedMsg_def Let_def)
  next
    case 3
    then show ?thesis by (simp add: Update_def on_secretCreatedMsg_def Let_def)
  next
    case 4
    then show ?thesis by (simp add: Update_def on_secretDeletedMsg_def Let_def)
  next
    case 5
    then show ?thesis by (simp add: Update_def on_versionAddedMsg_def Let_def)
  next
    case 6
    then show ?thesis by (simp add: Update_def on_secretValueMsg_def Let_def)
  next
    case 7
    then show ?thesis by (simp add: Update_def on_secretCopiedMsg_def Let_def)
  qed
qed

theorem error_completion_keeps_view_witness:
  "(\<exists>m' fx pre. Update ex_library (at 7) (secretValueMsg ''db'' None ''1'' (Some ''denied''))
        (fst ex_revealed) (snd ex_revealed) = Ok (m', snd ex_revealed, fx, [])
      \<and> statusErr m' \<and> statusMsg m' = pre @ ''denied'' \<and> pre \<noteq> []
      \<and> view m' = view (fst ex_revealed))"
  using error_completion_keeps_view [of "secretValueMsg ''db'' None ''1'' (Some ''denied'')"
      "[]" "''denied''" "[]" "''db''" None None "''1''" ex_library "at 7"
      "fst ex_revealed" "snd ex_revealed"]
  by simp

subsection \<open>The audit log\<close>

text \<open>
  Claim C9. \<^verbatim>\<open>Log\<close> does nothing and returns no error when logging is disabled or there
  is no file. Otherwise the event that is serialised is the given one with the timestamp
  and the user filled in only where the given event has none; what is written is the
  serialised event followed by one newline (a single line, as the serialisation itself
  holds no newline); after a successful write the file is synced before anything else
  happens, and the call returns no error exactly when the sync succeeds. A failed write
  returns its error at once.
\<close>

theorem Log_contract:
  "(\<not> enabled l \<or> file_handle l = None \<longrightarrow> Log marshal env event l = (None, l, []))
   \<and> (enabled l \<and> file_handle l = Some f
        \<and> marshal (event\<lparr>Timestamp := (if Timestamp event = [] then utcNow env
                                          else Timestamp event),
                           User := (if User event = [] then userEmail l else User event)\<rparr>)
            = Inr data \<longrightarrow>
        (\<exists>err l' ops.
           Log marshal env event l = (err, l', Write f (data @ [CHR 0x0A]) # ops)
           \<and> (writeResult env \<noteq> None \<longrightarrow> ops = [] \<and> err \<noteq> None \<and> l' = l)
           \<and> (writeResult env = None \<longrightarrow>
                (\<exists>ops'. ops = Sync f # ops') \<and> (err = None \<longleftrightarrow> syncResult env = None))
           \<and> (CHR 0x0A \<notin> set data \<longrightarrow>
                filter (\<lambda>c. c = CHR 0x0A) (data @ [CHR 0x0A]) = [CHR 0x0A])))"
proof (intro conjI impI)
  assume "\<not> enabled l \<or> file_handle l = None"
  then show "Log marshal env event l = (None, l, [])" by (auto simp add: Log_def)
next
  assume a: "enabled l \<and> file_handle l = Some f
        \<and> marshal (event\<lparr>Timestamp := (if Timestamp event = [] then utcNow env
                                          else Timestamp event),
                           User := (if User event = [] then userEmail l else User event)\<rparr>)
            = Inr data"
  have fill: "(let event1 = (if Timestamp event = [] then event\<lparr>Timestamp := utcNow env\<rparr> else event)
      in if User event1 = [] \<and> userEmail l \<noteq> [] then event1\<lparr>User := userEmail l\<rparr> else event1)
     = event\<lparr>Timestamp := (if Timestamp event = [] then utcNow env else Timestamp event),
              User := (if User event = [] then userEmail l else User event)\<rparr>"
    by (cases event) (auto simp add: Let_def)
  have nl: "CHR 0x0A \<notin> set data \<longrightarrow>
      filter (\<lambda>c. c = CHR 0x0A) (data @ [CHR 0x0A]) = [CHR 0x0A]"
    by (auto simp add: filter_empty_conv)
  from a have m: "marshal (let event1 = (if Timestamp event = [] then event\<lparr>Timestamp := utcNow env\<rparr> else event)
      in if User event1 = [] \<and> userEmail l \<noteq> [] then event1\<lparr>User := userEmail l\<rparr> else event1)
      = Inr data"
    unfolding fill by simp
  from a m nl show "\<exists>err l' ops.
           Log marshal env event l = (err, l', Write f (data @ [CHR 0x0A]) # ops)
           \<and> (writeResult env \<noteq> None \<longrightarrow> ops = [] \<and> err \<noteq> None \<and> l' = l)
           \<and> (writeResult env = None \<longrightarrow>
                (\<exists>ops'. ops = Sync f # ops') \<and> (err = None \<longleftrightarrow> syncResult env = None))
           \<and> (CHR 0x0A \<notin> set data \<longrightarrow>
                filter (\<lambda>c. c = CHR 0x0A) (data @ [CHR 0x0A]) = [CHR 0x0A])"
    unfolding Log_def Let_def
    by (cases "writeResult env"; cases "syncResult env"; cases "rotateIfNeeded env l")
      (simp_all add: Let_def)
qed


theorem Log_contract_witness:
  "enabled ex_logger \<and> file_handle ex_logger = Some 3
   \<and> Log ex_marshal ex_log_env (LogSessionLock_event ''demo'' ''inactivity_timeout'') ex_logger
       = (None, ex_logger,
          [Write 3 (''2026-01-01T00:00:00Z SESSION_LOCK ada@example.org'' @ [CHR 0x0A]), Sync 3,
           Stat 3])"
  using Log_contract [of ex_logger ex_marshal ex_log_env
      "LogSessionLock_event ''demo'' ''inactivity_timeout''" 3
      "''2026-01-01T00:00:00Z SESSION_LOCK ada@example.org''"]
  by (simp add: ex_logger_def ex_log_env_def ex_marshal_def LogSessionLock_event_def Log_def
      rotateIfNeeded_def wrap64_def Let_def)

subsection \<open>Time and the session lock\<close>












subsection \<open>What one step may touch\<close>


lemma updateDisplayItems_fields [simp]:
  "revealedValue (updateDisplayItems lower m) = revealedValue m"
  "config (updateDisplayItems lower m) = config m"
  "clipboardActive (updateDisplayItems lower m) = clipboardActive m"
  "clipboardClearAt (updateDisplayItems lower m) = clipboardClearAt m"
  "view (updateDisplayItems lower m) = view m"
  "secrets (updateDisplayItems lower m) = secrets m"
  "auditLogger (updateDisplayItems lower m) = auditLogger m"
  by (simp_all add: updateDisplayItems_def Let_def split: option.splits)

lemma buildFolderTree_fields [simp]:
  "revealedValue (buildFolderTree m) = revealedValue m"
  "config (buildFolderTree m) = config m"
  "clipboardActive (buildFolderTree m) = clipboardActive m"
  "clipboardClearAt (buildFolderTree m) = clipboardClearAt m"
  "view (buildFolderTree m) = view m"
  "secrets (buildFolderTree m) = secrets m"
  "auditLogger (buildFolderTree m) = auditLogger m"
  by (simp_all add: buildFolderTree_def)




subsection \<open>The revealed buffer\<close>


lemma cells_zero_buffer [simp]:
  "cells (zero_buffer a h) b = (if b = a then replicate (length (cells h a)) 0 else cells h b)"
  by (simp add: zero_buffer_def zero_bytes_replicate)

lemma nxt_zero_buffer [simp]: "nxt (zero_buffer a h) = nxt h"
  by (simp add: zero_buffer_def)















subsection \<open>The clipboard timer\<close>


















end
